theory Spec2Isabelle
  imports Main "HOL-Library.Word"
begin

section \<open>Go values used by load_balancing.go\<close>

text \<open>
  A Go slice is either nil (its zero value) or a possibly empty sequence: the composite
  literal \<^verbatim>\<open>[]T{}\<close> is an empty slice that is not nil, and the source returns both.
  A Go map is nil or a finite table; a pointer is \<open>None\<close> when nil.
\<close>

datatype 'a slice = NilSlice | Slice "'a list"

datatype ('k, 'v) gomap = NilMap | GoMap "('k \<times> 'v) list"

text \<open>
  Types of the standard library and of the rest of the package that this file only stores
  and never inspects: \<^verbatim>\<open>time.Time\<close>, \<^verbatim>\<open>float32\<close>, \<^verbatim>\<open>float64\<close> and the package's
  \<^verbatim>\<open>Duration\<close>.
\<close>

typedecl Time
typedecl float32
typedecl float64
typedecl Duration

section \<open>The data model (lines 12 to 290 of load_balancing.go)\<close>

text \<open>
  Record fields are global names in HOL, so a field that several structs share (ID, Name,
  Enabled, ...) carries the struct's short name as a prefix. Go's \<^verbatim>\<open>int\<close> is \<open>int\<close>
  (the file does no arithmetic), \<^verbatim>\<open>uint16\<close> is a 16-bit word, \<^verbatim>\<open>uint\<close> a 64-bit word.
\<close>

record LoadBalancerOrigin =
  Origin_Name :: string
  Origin_Address :: string
  Origin_Enabled :: bool
  Origin_Weight :: float64
  Origin_Header :: "(string, string slice) gomap"

record LoadBalancerOriginSteering =
  OriginSteering_Policy :: string

record LoadBalancerLoadShedding =
  DefaultPercent :: float32
  DefaultPolicy :: string
  SessionPercent :: float32
  SessionPolicy :: string

record LoadBalancerPool =
  Pool_ID :: string
  Pool_CreatedOn :: "Time option"
  Pool_ModifiedOn :: "Time option"
  Pool_Description :: string
  Pool_Name :: string
  Pool_Enabled :: bool
  MinimumOrigins :: int
  Monitor :: string
  Origins :: "LoadBalancerOrigin slice"
  NotificationEmail :: string
  Latitude :: "float32 option"
  Longitude :: "float32 option"
  LoadShedding :: "LoadBalancerLoadShedding option"
  OriginSteering :: "LoadBalancerOriginSteering option"
  CheckRegions :: "string slice"

record LoadBalancerMonitor =
  Monitor_ID :: string
  Monitor_CreatedOn :: "Time option"
  Monitor_ModifiedOn :: "Time option"
  Monitor_Type :: string
  Monitor_Description :: string
  Monitor_Method :: string
  Monitor_Path :: string
  Monitor_Header :: "(string, string slice) gomap"
  Monitor_Timeout :: int
  Retries :: int
  Interval :: int
  Port :: "16 word"
  ExpectedBody :: string
  ExpectedCodes :: string
  FollowRedirects :: bool
  AllowInsecure :: bool
  ProbeZone :: string

record LoadBalancerFixedResponseData =
  MessageBody :: string
  StatusCode :: int
  ContentType :: string
  Location :: string

record RandomSteering =
  DefaultWeight :: float64
  PoolWeights :: "(string, float64) gomap"

record LoadBalancerRuleOverridesSessionAffinityAttrs =
  Override_SameSite :: string
  Override_Secure :: string
  Override_ZeroDowntimeFailover :: string

record SessionAffinityAttributes =
  SameSite :: string
  Secure :: string
  DrainDuration :: int
  ZeroDowntimeFailover :: string

record LoadBalancerRuleOverrides =
  Override_Persistence :: string
  Override_PersistenceTTL :: "64 word option"
  SessionAffinityAttrs :: "LoadBalancerRuleOverridesSessionAffinityAttrs option"
  Override_TTL :: "64 word"
  Override_SteeringPolicy :: string
  Override_FallbackPool :: string
  Override_DefaultPools :: "string slice"
  Override_PoPPools :: "(string, string slice) gomap"
  Override_RegionPools :: "(string, string slice) gomap"
  Override_CountryPools :: "(string, string slice) gomap"
  Override_RandomSteering :: "RandomSteering option"

record LoadBalancerRule =
  Overrides :: LoadBalancerRuleOverrides
  Rule_Name :: string
  Condition :: string
  Priority :: int
  FixedResponse :: "LoadBalancerFixedResponseData option"
  Disabled :: bool
  Terminates :: bool

record LoadBalancer =
  LB_ID :: string
  LB_CreatedOn :: "Time option"
  LB_ModifiedOn :: "Time option"
  LB_Description :: string
  LB_Name :: string
  TTL :: int
  FallbackPool :: string
  DefaultPools :: "string slice"
  RegionPools :: "(string, string slice) gomap"
  PopPools :: "(string, string slice) gomap"
  CountryPools :: "(string, string slice) gomap"
  Proxied :: bool
  LB_Enabled :: "bool option"
  Persistence :: string
  PersistenceTTL :: int
  SessionAffinityAttributes :: "SessionAffinityAttributes option"
  Rules :: "LoadBalancerRule option slice"
  LB_RandomSteering :: "RandomSteering option"
  SteeringPolicy :: string

record LoadBalancerOriginHealth =
  OriginHealth_Healthy :: bool
  RTT :: Duration
  FailureReason :: string
  ResponseCode :: int

record LoadBalancerPoolPopHealth =
  PopHealth_Healthy :: bool
  PopHealth_Origins :: "(string, LoadBalancerOriginHealth) gomap slice"

record LoadBalancerPoolHealth =
  PoolHealth_ID :: string
  PopHealth :: "(string, LoadBalancerPoolPopHealth) gomap"

text \<open>
  The response wrappers (lines 211 to 254) embed the package's \<^verbatim>\<open>Response\<close> and carry a
  \<^verbatim>\<open>Result\<close>; the file decodes into them and reads only \<^verbatim>\<open>Result\<close>. The decoders
  below return that field.
\<close>

text \<open>
  The parameter structs. \<^verbatim>\<open>PaginationOptions\<close> is declared elsewhere in the package and
  only handed to \<^verbatim>\<open>buildURI\<close>, so it is the type parameter \<open>'pg\<close>.
\<close>

record CreateLoadBalancerPoolParams =
  CreatePool_LoadBalancerPool :: LoadBalancerPool

record 'pg ListLoadBalancerPoolParams =
  ListPool_PaginationOptions :: 'pg

record UpdateLoadBalancerPoolParams =
  UpdatePool_LoadBalancer :: LoadBalancerPool

record CreateLoadBalancerMonitorParams =
  CreateMonitor_LoadBalancerMonitor :: LoadBalancerMonitor

record 'pg ListLoadBalancerMonitorParams =
  ListMonitor_PaginationOptions :: 'pg

record UpdateLoadBalancerMonitorParams =
  UpdateMonitor_LoadBalancerMonitor :: LoadBalancerMonitor

record CreateLoadBalancerParams =
  CreateLB_LoadBalancer :: LoadBalancer

record 'pg ListLoadBalancerParams =
  ListLB_PaginationOptions :: 'pg

record UpdateLoadBalancerParams =
  UpdateLB_LoadBalancer :: LoadBalancer

section \<open>Errors, requests and what the file uses from the rest of the package\<close>

text \<open>
  Error values. The three sentinels are the \<^verbatim>\<open>errors.New\<close> values of lines 292 to 296.
  \<open>ErrInvalidResourceContainerAccess l\<close> is \<^verbatim>\<open>fmt.Errorf(errInvalidResourceContainerAccess, l)\<close>
  and \<open>ErrUnmarshal e\<close> is \<^verbatim>\<open>fmt.Errorf("%s: %w", errUnmarshalError, e)\<close>: a freshly formatted
  error, equal to no sentinel (the two format constants are declared elsewhere in the
  package). \<open>ErrExternal\<close> stands for any error made outside this file by the transport or
  the JSON decoder.
\<close>

datatype 'lvl error =
    ErrMissingPoolID
  | ErrMissingMonitorID
  | ErrMissingLoadBalancerID
  | ErrInvalidResourceContainerAccess 'lvl
  | ErrUnmarshal "'lvl error"
  | ErrExternal string

text \<open>
  \<^verbatim>\<open>ResourceContainer\<close> and the route levels are declared elsewhere in the package. The file
  reads the fields \<^verbatim>\<open>Level\<close> and \<^verbatim>\<open>Identifier\<close>, compares levels with \<^verbatim>\<open>==\<close> and prints the
  identifier with \<^verbatim>\<open>%s\<close>; the level type is the parameter \<open>'lvl\<close>.
\<close>

record 'lvl ResourceContainer =
  Level :: 'lvl
  Identifier :: string

text \<open>
  What the file takes from outside, as parameters: the constants \<^verbatim>\<open>ZoneRouteLevel\<close> and
  \<^verbatim>\<open>UserRouteLevel\<close>, \<^verbatim>\<open>buildURI\<close>, and \<^verbatim>\<open>json.Unmarshal\<close> into each response wrapper
  (the wrapper's \<^verbatim>\<open>Result\<close> after the call, and the error returned).
\<close>

record ('lvl, 'pg) Package =
  ZoneRouteLevel :: 'lvl
  UserRouteLevel :: 'lvl
  buildURI :: "string \<Rightarrow> 'pg \<Rightarrow> string"
  unmarshalPool :: "string \<Rightarrow> LoadBalancerPool \<times> 'lvl error option"
  unmarshalPoolList :: "string \<Rightarrow> LoadBalancerPool slice \<times> 'lvl error option"
  unmarshalMonitor :: "string \<Rightarrow> LoadBalancerMonitor \<times> 'lvl error option"
  unmarshalMonitorList :: "string \<Rightarrow> LoadBalancerMonitor slice \<times> 'lvl error option"
  unmarshalLoadBalancer :: "string \<Rightarrow> LoadBalancer \<times> 'lvl error option"
  unmarshalLoadBalancerList :: "string \<Rightarrow> LoadBalancer slice \<times> 'lvl error option"
  unmarshalPoolHealth :: "string \<Rightarrow> LoadBalancerPoolHealth \<times> 'lvl error option"

text \<open>
  An HTTP request as \<^verbatim>\<open>makeRequestContext\<close> receives it: method, URI and the value to send
  (\<^verbatim>\<open>nil\<close> is \<open>NoBody\<close>). The context argument is passed through unread and is left out.
\<close>

datatype Body =
    NoBody
  | PoolBody LoadBalancerPool
  | MonitorBody LoadBalancerMonitor
  | LoadBalancerBody LoadBalancer

record Request =
  Request_Method :: string
  Request_URI :: string
  Request_Body :: Body

definition MethodGet :: string where "MethodGet = ''GET''"
definition MethodPost :: string where "MethodPost = ''POST''"
definition MethodPut :: string where "MethodPut = ''PUT''"
definition MethodDelete :: string where "MethodDelete = ''DELETE''"

text \<open>
  The client: \<open>roundTrip\<close> is what the network answers to a request (the bytes and the
  error of \<^verbatim>\<open>makeRequestContext\<close>). Every call of \<^verbatim>\<open>makeRequestContext\<close> is recorded in the
  list of requests sent, which each operation takes and returns; an operation that sends
  nothing returns the list as it got it.
\<close>

record 'lvl API =
  roundTrip :: "Request \<Rightarrow> string \<times> 'lvl error option"

definition makeRequestContext ::
  "'lvl API \<Rightarrow> string \<Rightarrow> string \<Rightarrow> Body \<Rightarrow> Request list
     \<Rightarrow> (string \<times> 'lvl error option) \<times> Request list" where
  "makeRequestContext api method uri params sent =
     (let req = \<lparr>Request_Method = method, Request_URI = uri, Request_Body = params\<rparr>
      in (roundTrip api req, sent @ [req]))"

text \<open>
  An operation either panics (it dereferences \<^verbatim>\<open>rc\<close> first, so a nil container is a nil
  pointer dereference) or returns its Go result: a pair of value and error, or the error
  alone for the delete operations. A nil error is \<open>None\<close>.
\<close>

datatype 'r outcome = Panic | Return 'r

section \<open>Zero values\<close>

definition zero_LoadBalancerPool :: LoadBalancerPool where
  "zero_LoadBalancerPool =
     \<lparr>Pool_ID = '''', Pool_CreatedOn = None, Pool_ModifiedOn = None, Pool_Description = '''',
      Pool_Name = '''', Pool_Enabled = False, MinimumOrigins = 0, Monitor = '''',
      Origins = NilSlice, NotificationEmail = '''', Latitude = None, Longitude = None,
      LoadShedding = None, OriginSteering = None, CheckRegions = NilSlice\<rparr>"

definition zero_LoadBalancerMonitor :: LoadBalancerMonitor where
  "zero_LoadBalancerMonitor =
     \<lparr>Monitor_ID = '''', Monitor_CreatedOn = None, Monitor_ModifiedOn = None,
      Monitor_Type = '''', Monitor_Description = '''', Monitor_Method = '''',
      Monitor_Path = '''', Monitor_Header = NilMap, Monitor_Timeout = 0, Retries = 0,
      Interval = 0, Port = 0, ExpectedBody = '''', ExpectedCodes = '''',
      FollowRedirects = False, AllowInsecure = False, ProbeZone = ''''\<rparr>"

definition zero_LoadBalancer :: LoadBalancer where
  "zero_LoadBalancer =
     \<lparr>LB_ID = '''', LB_CreatedOn = None, LB_ModifiedOn = None, LB_Description = '''',
      LB_Name = '''', TTL = 0, FallbackPool = '''', DefaultPools = NilSlice,
      RegionPools = NilMap, PopPools = NilMap, CountryPools = NilMap, Proxied = False,
      LB_Enabled = None, Persistence = '''', PersistenceTTL = 0,
      SessionAffinityAttributes = None, Rules = NilSlice, LB_RandomSteering = None,
      SteeringPolicy = ''''\<rparr>"

definition zero_LoadBalancerPoolHealth :: LoadBalancerPoolHealth where
  "zero_LoadBalancerPoolHealth = \<lparr>PoolHealth_ID = '''', PopHealth = NilMap\<rparr>"

section \<open>The operations (lines 298 to 718)\<close>

text \<open>
  Each definition follows its Go function branch by branch: the container check, the
  identifier check where the function has one, the URI, the request, the decoding. The
  list operations return the empty non-nil slice \<^verbatim>\<open>[]T{}\<close> from the container check and
  \<^verbatim>\<open>nil\<close> from the later error returns, as the source does.
\<close>

text \<open>\<^verbatim>\<open>CreateLoadBalancerPool\<close> (lines 301 to 322).\<close>

definition CreateLoadBalancerPool ::
  "('lvl, 'pg) Package \<Rightarrow> 'lvl API \<Rightarrow> 'lvl ResourceContainer option \<Rightarrow> CreateLoadBalancerPoolParams
     \<Rightarrow> Request list \<Rightarrow> (LoadBalancerPool \<times> 'lvl error option) outcome \<times> Request list" where
  "CreateLoadBalancerPool pkg api rc params sent =
     (case rc of
        None \<Rightarrow> (Panic, sent)
      | Some c \<Rightarrow>
          if Level c = ZoneRouteLevel pkg
          then (Return (zero_LoadBalancerPool, Some (ErrInvalidResourceContainerAccess (ZoneRouteLevel pkg))), sent)
          else
            let uri = (if Level c = UserRouteLevel pkg then ''/user/load_balancers/pools''
              else ''/accounts/'' @ Identifier c @ ''/load_balancers/pools'');
                ((res, err), sent') = makeRequestContext api MethodPost uri (PoolBody (CreatePool_LoadBalancerPool params)) sent
            in (case err of
                  Some e \<Rightarrow> (Return (zero_LoadBalancerPool, Some e), sent')
                | None \<Rightarrow>
                    (case unmarshalPool pkg res of
                       (r, Some e) \<Rightarrow> (Return (zero_LoadBalancerPool, Some (ErrUnmarshal e)), sent')
                     | (r, None) \<Rightarrow> (Return (r, None), sent'))))"

text \<open>\<^verbatim>\<open>ListLoadBalancerPools\<close> (lines 327 to 350).\<close>

definition ListLoadBalancerPools ::
  "('lvl, 'pg) Package \<Rightarrow> 'lvl API \<Rightarrow> 'lvl ResourceContainer option \<Rightarrow> 'pg ListLoadBalancerPoolParams
     \<Rightarrow> Request list \<Rightarrow> (LoadBalancerPool slice \<times> 'lvl error option) outcome \<times> Request list" where
  "ListLoadBalancerPools pkg api rc params sent =
     (case rc of
        None \<Rightarrow> (Panic, sent)
      | Some c \<Rightarrow>
          if Level c = ZoneRouteLevel pkg
          then (Return (Slice [], Some (ErrInvalidResourceContainerAccess (ZoneRouteLevel pkg))), sent)
          else
            let uri = buildURI pkg ((if Level c = UserRouteLevel pkg then ''/user/load_balancers/pools''
              else ''/accounts/'' @ Identifier c @ ''/load_balancers/pools'')) (ListPool_PaginationOptions params);
                ((res, err), sent') = makeRequestContext api MethodGet uri NoBody sent
            in (case err of
                  Some e \<Rightarrow> (Return (NilSlice, Some e), sent')
                | None \<Rightarrow>
                    (case unmarshalPoolList pkg res of
                       (r, Some e) \<Rightarrow> (Return (NilSlice, Some (ErrUnmarshal e)), sent')
                     | (r, None) \<Rightarrow> (Return (r, None), sent'))))"

text \<open>\<^verbatim>\<open>GetLoadBalancerPool\<close> (lines 355 to 380).\<close>

definition GetLoadBalancerPool ::
  "('lvl, 'pg) Package \<Rightarrow> 'lvl API \<Rightarrow> 'lvl ResourceContainer option \<Rightarrow> string
     \<Rightarrow> Request list \<Rightarrow> (LoadBalancerPool \<times> 'lvl error option) outcome \<times> Request list" where
  "GetLoadBalancerPool pkg api rc poolID sent =
     (case rc of
        None \<Rightarrow> (Panic, sent)
      | Some c \<Rightarrow>
          if Level c = ZoneRouteLevel pkg
          then (Return (zero_LoadBalancerPool, Some (ErrInvalidResourceContainerAccess (ZoneRouteLevel pkg))), sent)
          else if poolID = ''''
          then (Return (zero_LoadBalancerPool, Some ErrMissingPoolID), sent)
          else
            let uri = (if Level c = UserRouteLevel pkg then ''/user/load_balancers/pools/'' @ poolID
              else ''/accounts/'' @ Identifier c @ ''/load_balancers/pools/'' @ poolID);
                ((res, err), sent') = makeRequestContext api MethodGet uri NoBody sent
            in (case err of
                  Some e \<Rightarrow> (Return (zero_LoadBalancerPool, Some e), sent')
                | None \<Rightarrow>
                    (case unmarshalPool pkg res of
                       (r, Some e) \<Rightarrow> (Return (zero_LoadBalancerPool, Some (ErrUnmarshal e)), sent')
                     | (r, None) \<Rightarrow> (Return (r, None), sent'))))"

text \<open>\<^verbatim>\<open>DeleteLoadBalancerPool\<close> (lines 385 to 406).\<close>

definition DeleteLoadBalancerPool ::
  "('lvl, 'pg) Package \<Rightarrow> 'lvl API \<Rightarrow> 'lvl ResourceContainer option \<Rightarrow> string
     \<Rightarrow> Request list \<Rightarrow> ('lvl error option) outcome \<times> Request list" where
  "DeleteLoadBalancerPool pkg api rc poolID sent =
     (case rc of
        None \<Rightarrow> (Panic, sent)
      | Some c \<Rightarrow>
          if Level c = ZoneRouteLevel pkg
          then (Return (Some (ErrInvalidResourceContainerAccess (ZoneRouteLevel pkg))), sent)
          else if poolID = ''''
          then (Return (Some ErrMissingPoolID), sent)
          else
            let uri = (if Level c = UserRouteLevel pkg then ''/user/load_balancers/pools/'' @ poolID
              else ''/accounts/'' @ Identifier c @ ''/load_balancers/pools/'' @ poolID);
                ((res, err), sent') = makeRequestContext api MethodDelete uri NoBody sent
            in (case err of
                  Some e \<Rightarrow> (Return (Some e), sent')
                | None \<Rightarrow> (Return None, sent')))"

text \<open>\<^verbatim>\<open>UpdateLoadBalancerPool\<close> (lines 411 to 436).\<close>

definition UpdateLoadBalancerPool ::
  "('lvl, 'pg) Package \<Rightarrow> 'lvl API \<Rightarrow> 'lvl ResourceContainer option \<Rightarrow> UpdateLoadBalancerPoolParams
     \<Rightarrow> Request list \<Rightarrow> (LoadBalancerPool \<times> 'lvl error option) outcome \<times> Request list" where
  "UpdateLoadBalancerPool pkg api rc params sent =
     (case rc of
        None \<Rightarrow> (Panic, sent)
      | Some c \<Rightarrow>
          if Level c = ZoneRouteLevel pkg
          then (Return (zero_LoadBalancerPool, Some (ErrInvalidResourceContainerAccess (ZoneRouteLevel pkg))), sent)
          else if Pool_ID (UpdatePool_LoadBalancer params) = ''''
          then (Return (zero_LoadBalancerPool, Some ErrMissingPoolID), sent)
          else
            let uri = (if Level c = UserRouteLevel pkg then ''/user/load_balancers/pools/'' @ Pool_ID (UpdatePool_LoadBalancer params)
              else ''/accounts/'' @ Identifier c @ ''/load_balancers/pools/'' @ Pool_ID (UpdatePool_LoadBalancer params));
                ((res, err), sent') = makeRequestContext api MethodPut uri (PoolBody (UpdatePool_LoadBalancer params)) sent
            in (case err of
                  Some e \<Rightarrow> (Return (zero_LoadBalancerPool, Some e), sent')
                | None \<Rightarrow>
                    (case unmarshalPool pkg res of
                       (r, Some e) \<Rightarrow> (Return (zero_LoadBalancerPool, Some (ErrUnmarshal e)), sent')
                     | (r, None) \<Rightarrow> (Return (r, None), sent'))))"

text \<open>\<^verbatim>\<open>CreateLoadBalancerMonitor\<close> (lines 441 to 462).\<close>

definition CreateLoadBalancerMonitor ::
  "('lvl, 'pg) Package \<Rightarrow> 'lvl API \<Rightarrow> 'lvl ResourceContainer option \<Rightarrow> CreateLoadBalancerMonitorParams
     \<Rightarrow> Request list \<Rightarrow> (LoadBalancerMonitor \<times> 'lvl error option) outcome \<times> Request list" where
  "CreateLoadBalancerMonitor pkg api rc params sent =
     (case rc of
        None \<Rightarrow> (Panic, sent)
      | Some c \<Rightarrow>
          if Level c = ZoneRouteLevel pkg
          then (Return (zero_LoadBalancerMonitor, Some (ErrInvalidResourceContainerAccess (ZoneRouteLevel pkg))), sent)
          else
            let uri = (if Level c = UserRouteLevel pkg then ''/user/load_balancers/monitors''
              else ''/accounts/'' @ Identifier c @ ''/load_balancers/monitors'');
                ((res, err), sent') = makeRequestContext api MethodPost uri (MonitorBody (CreateMonitor_LoadBalancerMonitor params)) sent
            in (case err of
                  Some e \<Rightarrow> (Return (zero_LoadBalancerMonitor, Some e), sent')
                | None \<Rightarrow>
                    (case unmarshalMonitor pkg res of
                       (r, Some e) \<Rightarrow> (Return (zero_LoadBalancerMonitor, Some (ErrUnmarshal e)), sent')
                     | (r, None) \<Rightarrow> (Return (r, None), sent'))))"

text \<open>\<^verbatim>\<open>ListLoadBalancerMonitors\<close> (lines 467 to 490).\<close>

definition ListLoadBalancerMonitors ::
  "('lvl, 'pg) Package \<Rightarrow> 'lvl API \<Rightarrow> 'lvl ResourceContainer option \<Rightarrow> 'pg ListLoadBalancerMonitorParams
     \<Rightarrow> Request list \<Rightarrow> (LoadBalancerMonitor slice \<times> 'lvl error option) outcome \<times> Request list" where
  "ListLoadBalancerMonitors pkg api rc params sent =
     (case rc of
        None \<Rightarrow> (Panic, sent)
      | Some c \<Rightarrow>
          if Level c = ZoneRouteLevel pkg
          then (Return (Slice [], Some (ErrInvalidResourceContainerAccess (ZoneRouteLevel pkg))), sent)
          else
            let uri = buildURI pkg ((if Level c = UserRouteLevel pkg then ''/user/load_balancers/monitors''
              else ''/accounts/'' @ Identifier c @ ''/load_balancers/monitors'')) (ListMonitor_PaginationOptions params);
                ((res, err), sent') = makeRequestContext api MethodGet uri NoBody sent
            in (case err of
                  Some e \<Rightarrow> (Return (NilSlice, Some e), sent')
                | None \<Rightarrow>
                    (case unmarshalMonitorList pkg res of
                       (r, Some e) \<Rightarrow> (Return (NilSlice, Some (ErrUnmarshal e)), sent')
                     | (r, None) \<Rightarrow> (Return (r, None), sent'))))"

text \<open>\<^verbatim>\<open>GetLoadBalancerMonitor\<close> (lines 495 to 520).\<close>

definition GetLoadBalancerMonitor ::
  "('lvl, 'pg) Package \<Rightarrow> 'lvl API \<Rightarrow> 'lvl ResourceContainer option \<Rightarrow> string
     \<Rightarrow> Request list \<Rightarrow> (LoadBalancerMonitor \<times> 'lvl error option) outcome \<times> Request list" where
  "GetLoadBalancerMonitor pkg api rc monitorID sent =
     (case rc of
        None \<Rightarrow> (Panic, sent)
      | Some c \<Rightarrow>
          if Level c = ZoneRouteLevel pkg
          then (Return (zero_LoadBalancerMonitor, Some (ErrInvalidResourceContainerAccess (ZoneRouteLevel pkg))), sent)
          else if monitorID = ''''
          then (Return (zero_LoadBalancerMonitor, Some ErrMissingMonitorID), sent)
          else
            let uri = (if Level c = UserRouteLevel pkg then ''/user/load_balancers/monitors/'' @ monitorID
              else ''/accounts/'' @ Identifier c @ ''/load_balancers/monitors/'' @ monitorID);
                ((res, err), sent') = makeRequestContext api MethodGet uri NoBody sent
            in (case err of
                  Some e \<Rightarrow> (Return (zero_LoadBalancerMonitor, Some e), sent')
                | None \<Rightarrow>
                    (case unmarshalMonitor pkg res of
                       (r, Some e) \<Rightarrow> (Return (zero_LoadBalancerMonitor, Some (ErrUnmarshal e)), sent')
                     | (r, None) \<Rightarrow> (Return (r, None), sent'))))"

text \<open>\<^verbatim>\<open>DeleteLoadBalancerMonitor\<close> (lines 525 to 545).\<close>

definition DeleteLoadBalancerMonitor ::
  "('lvl, 'pg) Package \<Rightarrow> 'lvl API \<Rightarrow> 'lvl ResourceContainer option \<Rightarrow> string
     \<Rightarrow> Request list \<Rightarrow> ('lvl error option) outcome \<times> Request list" where
  "DeleteLoadBalancerMonitor pkg api rc monitorID sent =
     (case rc of
        None \<Rightarrow> (Panic, sent)
      | Some c \<Rightarrow>
          if Level c = ZoneRouteLevel pkg
          then (Return (Some (ErrInvalidResourceContainerAccess (ZoneRouteLevel pkg))), sent)
          else if monitorID = ''''
          then (Return (Some ErrMissingMonitorID), sent)
          else
            let uri = (if Level c = UserRouteLevel pkg then ''/user/load_balancers/monitors/'' @ monitorID
              else ''/accounts/'' @ Identifier c @ ''/load_balancers/monitors/'' @ monitorID);
                ((res, err), sent') = makeRequestContext api MethodDelete uri NoBody sent
            in (case err of
                  Some e \<Rightarrow> (Return (Some e), sent')
                | None \<Rightarrow> (Return None, sent')))"

text \<open>\<^verbatim>\<open>UpdateLoadBalancerMonitor\<close> (lines 550 to 575).\<close>

definition UpdateLoadBalancerMonitor ::
  "('lvl, 'pg) Package \<Rightarrow> 'lvl API \<Rightarrow> 'lvl ResourceContainer option \<Rightarrow> UpdateLoadBalancerMonitorParams
     \<Rightarrow> Request list \<Rightarrow> (LoadBalancerMonitor \<times> 'lvl error option) outcome \<times> Request list" where
  "UpdateLoadBalancerMonitor pkg api rc params sent =
     (case rc of
        None \<Rightarrow> (Panic, sent)
      | Some c \<Rightarrow>
          if Level c = ZoneRouteLevel pkg
          then (Return (zero_LoadBalancerMonitor, Some (ErrInvalidResourceContainerAccess (ZoneRouteLevel pkg))), sent)
          else if Monitor_ID (UpdateMonitor_LoadBalancerMonitor params) = ''''
          then (Return (zero_LoadBalancerMonitor, Some ErrMissingMonitorID), sent)
          else
            let uri = (if Level c = UserRouteLevel pkg then ''/user/load_balancers/monitors/'' @ Monitor_ID (UpdateMonitor_LoadBalancerMonitor params)
              else ''/accounts/'' @ Identifier c @ ''/load_balancers/monitors/'' @ Monitor_ID (UpdateMonitor_LoadBalancerMonitor params));
                ((res, err), sent') = makeRequestContext api MethodPut uri (MonitorBody (UpdateMonitor_LoadBalancerMonitor params)) sent
            in (case err of
                  Some e \<Rightarrow> (Return (zero_LoadBalancerMonitor, Some e), sent')
                | None \<Rightarrow>
                    (case unmarshalMonitor pkg res of
                       (r, Some e) \<Rightarrow> (Return (zero_LoadBalancerMonitor, Some (ErrUnmarshal e)), sent')
                     | (r, None) \<Rightarrow> (Return (r, None), sent'))))"

text \<open>\<^verbatim>\<open>CreateLoadBalancer\<close> (lines 580 to 596).\<close>

definition CreateLoadBalancer ::
  "('lvl, 'pg) Package \<Rightarrow> 'lvl API \<Rightarrow> 'lvl ResourceContainer option \<Rightarrow> CreateLoadBalancerParams
     \<Rightarrow> Request list \<Rightarrow> (LoadBalancer \<times> 'lvl error option) outcome \<times> Request list" where
  "CreateLoadBalancer pkg api rc params sent =
     (case rc of
        None \<Rightarrow> (Panic, sent)
      | Some c \<Rightarrow>
          if Level c \<noteq> ZoneRouteLevel pkg
          then (Return (zero_LoadBalancer, Some (ErrInvalidResourceContainerAccess (Level c))), sent)
          else
            let uri = ''/zones/'' @ Identifier c @ ''/load_balancers'';
                ((res, err), sent') = makeRequestContext api MethodPost uri (LoadBalancerBody (CreateLB_LoadBalancer params)) sent
            in (case err of
                  Some e \<Rightarrow> (Return (zero_LoadBalancer, Some e), sent')
                | None \<Rightarrow>
                    (case unmarshalLoadBalancer pkg res of
                       (r, Some e) \<Rightarrow> (Return (zero_LoadBalancer, Some (ErrUnmarshal e)), sent')
                     | (r, None) \<Rightarrow> (Return (r, None), sent'))))"

text \<open>\<^verbatim>\<open>ListLoadBalancers\<close> (lines 601 to 617).\<close>

definition ListLoadBalancers ::
  "('lvl, 'pg) Package \<Rightarrow> 'lvl API \<Rightarrow> 'lvl ResourceContainer option \<Rightarrow> 'pg ListLoadBalancerParams
     \<Rightarrow> Request list \<Rightarrow> (LoadBalancer slice \<times> 'lvl error option) outcome \<times> Request list" where
  "ListLoadBalancers pkg api rc params sent =
     (case rc of
        None \<Rightarrow> (Panic, sent)
      | Some c \<Rightarrow>
          if Level c \<noteq> ZoneRouteLevel pkg
          then (Return (Slice [], Some (ErrInvalidResourceContainerAccess (Level c))), sent)
          else
            let uri = buildURI pkg (''/zones/'' @ Identifier c @ ''/load_balancers'') (ListLB_PaginationOptions params);
                ((res, err), sent') = makeRequestContext api MethodGet uri NoBody sent
            in (case err of
                  Some e \<Rightarrow> (Return (NilSlice, Some e), sent')
                | None \<Rightarrow>
                    (case unmarshalLoadBalancerList pkg res of
                       (r, Some e) \<Rightarrow> (Return (NilSlice, Some (ErrUnmarshal e)), sent')
                     | (r, None) \<Rightarrow> (Return (r, None), sent'))))"

text \<open>\<^verbatim>\<open>GetLoadBalancer\<close> (lines 622 to 642).\<close>

definition GetLoadBalancer ::
  "('lvl, 'pg) Package \<Rightarrow> 'lvl API \<Rightarrow> 'lvl ResourceContainer option \<Rightarrow> string
     \<Rightarrow> Request list \<Rightarrow> (LoadBalancer \<times> 'lvl error option) outcome \<times> Request list" where
  "GetLoadBalancer pkg api rc loadbalancerID sent =
     (case rc of
        None \<Rightarrow> (Panic, sent)
      | Some c \<Rightarrow>
          if Level c \<noteq> ZoneRouteLevel pkg
          then (Return (zero_LoadBalancer, Some (ErrInvalidResourceContainerAccess (Level c))), sent)
          else if loadbalancerID = ''''
          then (Return (zero_LoadBalancer, Some ErrMissingLoadBalancerID), sent)
          else
            let uri = ''/zones/'' @ Identifier c @ ''/load_balancers/'' @ loadbalancerID;
                ((res, err), sent') = makeRequestContext api MethodGet uri NoBody sent
            in (case err of
                  Some e \<Rightarrow> (Return (zero_LoadBalancer, Some e), sent')
                | None \<Rightarrow>
                    (case unmarshalLoadBalancer pkg res of
                       (r, Some e) \<Rightarrow> (Return (zero_LoadBalancer, Some (ErrUnmarshal e)), sent')
                     | (r, None) \<Rightarrow> (Return (r, None), sent'))))"

text \<open>\<^verbatim>\<open>DeleteLoadBalancer\<close> (lines 647 to 662).\<close>

definition DeleteLoadBalancer ::
  "('lvl, 'pg) Package \<Rightarrow> 'lvl API \<Rightarrow> 'lvl ResourceContainer option \<Rightarrow> string
     \<Rightarrow> Request list \<Rightarrow> ('lvl error option) outcome \<times> Request list" where
  "DeleteLoadBalancer pkg api rc loadbalancerID sent =
     (case rc of
        None \<Rightarrow> (Panic, sent)
      | Some c \<Rightarrow>
          if Level c \<noteq> ZoneRouteLevel pkg
          then (Return (Some (ErrInvalidResourceContainerAccess (Level c))), sent)
          else if loadbalancerID = ''''
          then (Return (Some ErrMissingLoadBalancerID), sent)
          else
            let uri = ''/zones/'' @ Identifier c @ ''/load_balancers/'' @ loadbalancerID;
                ((res, err), sent') = makeRequestContext api MethodDelete uri NoBody sent
            in (case err of
                  Some e \<Rightarrow> (Return (Some e), sent')
                | None \<Rightarrow> (Return None, sent')))"

text \<open>\<^verbatim>\<open>UpdateLoadBalancer\<close> (lines 667 to 687).\<close>

definition UpdateLoadBalancer ::
  "('lvl, 'pg) Package \<Rightarrow> 'lvl API \<Rightarrow> 'lvl ResourceContainer option \<Rightarrow> UpdateLoadBalancerParams
     \<Rightarrow> Request list \<Rightarrow> (LoadBalancer \<times> 'lvl error option) outcome \<times> Request list" where
  "UpdateLoadBalancer pkg api rc params sent =
     (case rc of
        None \<Rightarrow> (Panic, sent)
      | Some c \<Rightarrow>
          if Level c \<noteq> ZoneRouteLevel pkg
          then (Return (zero_LoadBalancer, Some (ErrInvalidResourceContainerAccess (Level c))), sent)
          else if LB_ID (UpdateLB_LoadBalancer params) = ''''
          then (Return (zero_LoadBalancer, Some ErrMissingLoadBalancerID), sent)
          else
            let uri = ''/zones/'' @ Identifier c @ ''/load_balancers/'' @ LB_ID (UpdateLB_LoadBalancer params);
                ((res, err), sent') = makeRequestContext api MethodPut uri (LoadBalancerBody (UpdateLB_LoadBalancer params)) sent
            in (case err of
                  Some e \<Rightarrow> (Return (zero_LoadBalancer, Some e), sent')
                | None \<Rightarrow>
                    (case unmarshalLoadBalancer pkg res of
                       (r, Some e) \<Rightarrow> (Return (zero_LoadBalancer, Some (ErrUnmarshal e)), sent')
                     | (r, None) \<Rightarrow> (Return (r, None), sent'))))"

text \<open>\<^verbatim>\<open>GetLoadBalancerPoolHealth\<close> (lines 693 to 718).\<close>

definition GetLoadBalancerPoolHealth ::
  "('lvl, 'pg) Package \<Rightarrow> 'lvl API \<Rightarrow> 'lvl ResourceContainer option \<Rightarrow> string
     \<Rightarrow> Request list \<Rightarrow> (LoadBalancerPoolHealth \<times> 'lvl error option) outcome \<times> Request list" where
  "GetLoadBalancerPoolHealth pkg api rc poolID sent =
     (case rc of
        None \<Rightarrow> (Panic, sent)
      | Some c \<Rightarrow>
          if Level c = ZoneRouteLevel pkg
          then (Return (zero_LoadBalancerPoolHealth, Some (ErrInvalidResourceContainerAccess (ZoneRouteLevel pkg))), sent)
          else if poolID = ''''
          then (Return (zero_LoadBalancerPoolHealth, Some ErrMissingPoolID), sent)
          else
            let uri = (if Level c = UserRouteLevel pkg then ''/user/load_balancers/pools/'' @ poolID @ ''/health''
              else ''/accounts/'' @ Identifier c @ ''/load_balancers/pools/'' @ poolID @ ''/health'');
                ((res, err), sent') = makeRequestContext api MethodGet uri NoBody sent
            in (case err of
                  Some e \<Rightarrow> (Return (zero_LoadBalancerPoolHealth, Some e), sent')
                | None \<Rightarrow>
                    (case unmarshalPoolHealth pkg res of
                       (r, Some e) \<Rightarrow> (Return (zero_LoadBalancerPoolHealth, Some (ErrUnmarshal e)), sent')
                     | (r, None) \<Rightarrow> (Return (r, None), sent'))))"

section \<open>Concrete inputs\<close>

text \<open>
  A package instance with the levels as strings and no pagination data, a client whose
  network always fails, and containers of the three levels.
\<close>

definition examplePackage :: "(string, unit) Package" where
  "examplePackage =
     \<lparr>ZoneRouteLevel = ''zones'', UserRouteLevel = ''user'',
      buildURI = (\<lambda>uri _. uri),
      unmarshalPool = (\<lambda>_. (zero_LoadBalancerPool, None)),
      unmarshalPoolList = (\<lambda>_. (Slice [], None)),
      unmarshalMonitor = (\<lambda>_. (zero_LoadBalancerMonitor, None)),
      unmarshalMonitorList = (\<lambda>_. (Slice [], None)),
      unmarshalLoadBalancer = (\<lambda>_. (zero_LoadBalancer, None)),
      unmarshalLoadBalancerList = (\<lambda>_. (Slice [], None)),
      unmarshalPoolHealth = (\<lambda>_. (zero_LoadBalancerPoolHealth, None))\<rparr>"

definition exampleAPI :: "string API" where
  "exampleAPI = \<lparr>roundTrip = (\<lambda>_. ('''', Some (ErrExternal ''unreachable'')))\<rparr>"

definition zoneContainer :: "string ResourceContainer" where
  "zoneContainer = \<lparr>Level = ''zones'', Identifier = ''z1''\<rparr>"

definition accountContainer :: "string ResourceContainer" where
  "accountContainer = \<lparr>Level = ''accounts'', Identifier = ''a1''\<rparr>"

section \<open>The container check\<close>

text \<open>
  C8, as the code has it. A pool or monitor operation (create, list, get, update, delete,
  pool health) called with a container of the zone level, and a load balancer operation
  (create, list, get, update, delete) called with a container of any other level, returns
  the invalid-resource-container error and sends no request: the list of requests sent
  comes back unchanged. With the error it returns the zero value of its result type,
  except that the three list operations return the empty non-nil slice (not the nil
  slice, which is the zero value) and the three delete operations return the error alone.
\<close>

theorem C8_container_check:
  assumes z: "Level z = ZoneRouteLevel pkg"
    and a: "Level a \<noteq> ZoneRouteLevel pkg"
  shows
    "CreateLoadBalancerPool pkg api (Some z) cp sent =
       (Return (zero_LoadBalancerPool, Some (ErrInvalidResourceContainerAccess (ZoneRouteLevel pkg))), sent)
     \<and> ListLoadBalancerPools pkg api (Some z) lp sent =
       (Return (Slice [], Some (ErrInvalidResourceContainerAccess (ZoneRouteLevel pkg))), sent)
     \<and> GetLoadBalancerPool pkg api (Some z) pid sent =
       (Return (zero_LoadBalancerPool, Some (ErrInvalidResourceContainerAccess (ZoneRouteLevel pkg))), sent)
     \<and> DeleteLoadBalancerPool pkg api (Some z) pid sent =
       (Return (Some (ErrInvalidResourceContainerAccess (ZoneRouteLevel pkg))), sent)
     \<and> UpdateLoadBalancerPool pkg api (Some z) up sent =
       (Return (zero_LoadBalancerPool, Some (ErrInvalidResourceContainerAccess (ZoneRouteLevel pkg))), sent)
     \<and> GetLoadBalancerPoolHealth pkg api (Some z) pid sent =
       (Return (zero_LoadBalancerPoolHealth, Some (ErrInvalidResourceContainerAccess (ZoneRouteLevel pkg))), sent)
     \<and> CreateLoadBalancerMonitor pkg api (Some z) cm sent =
       (Return (zero_LoadBalancerMonitor, Some (ErrInvalidResourceContainerAccess (ZoneRouteLevel pkg))), sent)
     \<and> ListLoadBalancerMonitors pkg api (Some z) lm sent =
       (Return (Slice [], Some (ErrInvalidResourceContainerAccess (ZoneRouteLevel pkg))), sent)
     \<and> GetLoadBalancerMonitor pkg api (Some z) mid sent =
       (Return (zero_LoadBalancerMonitor, Some (ErrInvalidResourceContainerAccess (ZoneRouteLevel pkg))), sent)
     \<and> DeleteLoadBalancerMonitor pkg api (Some z) mid sent =
       (Return (Some (ErrInvalidResourceContainerAccess (ZoneRouteLevel pkg))), sent)
     \<and> UpdateLoadBalancerMonitor pkg api (Some z) um sent =
       (Return (zero_LoadBalancerMonitor, Some (ErrInvalidResourceContainerAccess (ZoneRouteLevel pkg))), sent)
     \<and> CreateLoadBalancer pkg api (Some a) cl sent =
       (Return (zero_LoadBalancer, Some (ErrInvalidResourceContainerAccess (Level a))), sent)
     \<and> ListLoadBalancers pkg api (Some a) ll sent =
       (Return (Slice [], Some (ErrInvalidResourceContainerAccess (Level a))), sent)
     \<and> GetLoadBalancer pkg api (Some a) lid sent =
       (Return (zero_LoadBalancer, Some (ErrInvalidResourceContainerAccess (Level a))), sent)
     \<and> DeleteLoadBalancer pkg api (Some a) lid sent =
       (Return (Some (ErrInvalidResourceContainerAccess (Level a))), sent)
     \<and> UpdateLoadBalancer pkg api (Some a) ul sent =
       (Return (zero_LoadBalancer, Some (ErrInvalidResourceContainerAccess (Level a))), sent)"
proof -
  have pools:
    "CreateLoadBalancerPool pkg api (Some z) cp sent =
       (Return (zero_LoadBalancerPool, Some (ErrInvalidResourceContainerAccess (ZoneRouteLevel pkg))), sent)"
    "ListLoadBalancerPools pkg api (Some z) lp sent =
       (Return (Slice [], Some (ErrInvalidResourceContainerAccess (ZoneRouteLevel pkg))), sent)"
    "GetLoadBalancerPool pkg api (Some z) pid sent =
       (Return (zero_LoadBalancerPool, Some (ErrInvalidResourceContainerAccess (ZoneRouteLevel pkg))), sent)"
    "DeleteLoadBalancerPool pkg api (Some z) pid sent =
       (Return (Some (ErrInvalidResourceContainerAccess (ZoneRouteLevel pkg))), sent)"
    "UpdateLoadBalancerPool pkg api (Some z) up sent =
       (Return (zero_LoadBalancerPool, Some (ErrInvalidResourceContainerAccess (ZoneRouteLevel pkg))), sent)"
    "GetLoadBalancerPoolHealth pkg api (Some z) pid sent =
       (Return (zero_LoadBalancerPoolHealth, Some (ErrInvalidResourceContainerAccess (ZoneRouteLevel pkg))), sent)"
    using z
    by (simp_all add: CreateLoadBalancerPool_def ListLoadBalancerPools_def
        GetLoadBalancerPool_def DeleteLoadBalancerPool_def UpdateLoadBalancerPool_def
        GetLoadBalancerPoolHealth_def)
  have monitors:
    "CreateLoadBalancerMonitor pkg api (Some z) cm sent =
       (Return (zero_LoadBalancerMonitor, Some (ErrInvalidResourceContainerAccess (ZoneRouteLevel pkg))), sent)"
    "ListLoadBalancerMonitors pkg api (Some z) lm sent =
       (Return (Slice [], Some (ErrInvalidResourceContainerAccess (ZoneRouteLevel pkg))), sent)"
    "GetLoadBalancerMonitor pkg api (Some z) mid sent =
       (Return (zero_LoadBalancerMonitor, Some (ErrInvalidResourceContainerAccess (ZoneRouteLevel pkg))), sent)"
    "DeleteLoadBalancerMonitor pkg api (Some z) mid sent =
       (Return (Some (ErrInvalidResourceContainerAccess (ZoneRouteLevel pkg))), sent)"
    "UpdateLoadBalancerMonitor pkg api (Some z) um sent =
       (Return (zero_LoadBalancerMonitor, Some (ErrInvalidResourceContainerAccess (ZoneRouteLevel pkg))), sent)"
    using z
    by (simp_all add: CreateLoadBalancerMonitor_def ListLoadBalancerMonitors_def
        GetLoadBalancerMonitor_def DeleteLoadBalancerMonitor_def UpdateLoadBalancerMonitor_def)
  have balancers:
    "CreateLoadBalancer pkg api (Some a) cl sent =
       (Return (zero_LoadBalancer, Some (ErrInvalidResourceContainerAccess (Level a))), sent)"
    "ListLoadBalancers pkg api (Some a) ll sent =
       (Return (Slice [], Some (ErrInvalidResourceContainerAccess (Level a))), sent)"
    "GetLoadBalancer pkg api (Some a) lid sent =
       (Return (zero_LoadBalancer, Some (ErrInvalidResourceContainerAccess (Level a))), sent)"
    "DeleteLoadBalancer pkg api (Some a) lid sent =
       (Return (Some (ErrInvalidResourceContainerAccess (Level a))), sent)"
    "UpdateLoadBalancer pkg api (Some a) ul sent =
       (Return (zero_LoadBalancer, Some (ErrInvalidResourceContainerAccess (Level a))), sent)"
    using a
    by (simp_all add: CreateLoadBalancer_def ListLoadBalancers_def GetLoadBalancer_def
        DeleteLoadBalancer_def UpdateLoadBalancer_def)
  from pools monitors balancers show ?thesis by blast
qed

theorem C8_container_check_witness:
  "Level zoneContainer = ZoneRouteLevel examplePackage
   \<and> Level accountContainer \<noteq> ZoneRouteLevel examplePackage
   \<and> CreateLoadBalancerPool examplePackage exampleAPI (Some zoneContainer)
         \<lparr>CreatePool_LoadBalancerPool = zero_LoadBalancerPool\<rparr> [] =
       (Return (zero_LoadBalancerPool, Some (ErrInvalidResourceContainerAccess ''zones'')), [])
   \<and> ListLoadBalancerMonitors examplePackage exampleAPI (Some zoneContainer)
         \<lparr>ListMonitor_PaginationOptions = ()\<rparr> [] =
       (Return (Slice [], Some (ErrInvalidResourceContainerAccess ''zones'')), [])
   \<and> DeleteLoadBalancerPool examplePackage exampleAPI (Some zoneContainer) ''p1'' [] =
       (Return (Some (ErrInvalidResourceContainerAccess ''zones'')), [])
   \<and> GetLoadBalancerPoolHealth examplePackage exampleAPI (Some zoneContainer) ''p1'' [] =
       (Return (zero_LoadBalancerPoolHealth, Some (ErrInvalidResourceContainerAccess ''zones'')), [])
   \<and> GetLoadBalancer examplePackage exampleAPI (Some accountContainer) ''lb1'' [] =
       (Return (zero_LoadBalancer, Some (ErrInvalidResourceContainerAccess ''accounts'')), [])
   \<and> UpdateLoadBalancer examplePackage exampleAPI (Some accountContainer)
         \<lparr>UpdateLB_LoadBalancer = zero_LoadBalancer\<lparr>LB_ID := ''lb1''\<rparr>\<rparr> [] =
       (Return (zero_LoadBalancer, Some (ErrInvalidResourceContainerAccess ''accounts'')), [])"
proof -
  have z: "Level zoneContainer = ZoneRouteLevel examplePackage"
    by (simp add: zoneContainer_def examplePackage_def)
  have a: "Level accountContainer \<noteq> ZoneRouteLevel examplePackage"
    by (simp add: accountContainer_def examplePackage_def)
  have zl: "ZoneRouteLevel examplePackage = ''zones''"
    by (simp add: examplePackage_def)
  have al: "Level accountContainer = ''accounts''"
    by (simp add: accountContainer_def)
  note inst = C8_container_check [OF z a, where api = exampleAPI and sent = "[]"
      and cp = "\<lparr>CreatePool_LoadBalancerPool = zero_LoadBalancerPool\<rparr>"
      and lm = "\<lparr>ListMonitor_PaginationOptions = ()\<rparr>"
      and pid = "''p1''" and lid = "''lb1''"
      and ul = "\<lparr>UpdateLB_LoadBalancer = zero_LoadBalancer\<lparr>LB_ID := ''lb1''\<rparr>\<rparr>",
      unfolded zl al]
  from inst z a show ?thesis by blast
qed

text \<open>
  C8 as the spec states it asks for the zero value of the result type from every
  operation. The zero value of a slice type is nil; at a zone-level container
  \<^verbatim>\<open>ListLoadBalancerPools\<close> returns \<^verbatim>\<open>[]LoadBalancerPool{}\<close>, which is empty and not nil.
\<close>

theorem C8_list_not_zero_value:
  "Level zoneContainer = ZoneRouteLevel examplePackage
   \<and> ListLoadBalancerPools examplePackage exampleAPI (Some zoneContainer)
         \<lparr>ListPool_PaginationOptions = ()\<rparr> [] =
       (Return (Slice [], Some (ErrInvalidResourceContainerAccess ''zones'')), [])
   \<and> ListLoadBalancerPools examplePackage exampleAPI (Some zoneContainer)
         \<lparr>ListPool_PaginationOptions = ()\<rparr> [] \<noteq>
       (Return (NilSlice, Some (ErrInvalidResourceContainerAccess ''zones'')), [])"
  by (simp add: ListLoadBalancerPools_def zoneContainer_def examplePackage_def)

section \<open>The identifier check\<close>

text \<open>
  C9, as the code has it. The identifier check comes after the container check, so it
  is reached only with a container whose level the operation accepts: any level but the
  zone level for the pool and monitor operations, the zone level for the load balancer
  operations. With such a container, a get, delete or update operation (pool health
  included) called with the empty identifier returns its sentinel error, with the zero
  value of its result type where it has a result, and sends no request.
\<close>

theorem C9_identifier_check:
  assumes a: "Level a \<noteq> ZoneRouteLevel pkg"
    and z: "Level z = ZoneRouteLevel pkg"
    and up: "Pool_ID (UpdatePool_LoadBalancer up) = ''''"
    and um: "Monitor_ID (UpdateMonitor_LoadBalancerMonitor um) = ''''"
    and ul: "LB_ID (UpdateLB_LoadBalancer ul) = ''''"
  shows
    "GetLoadBalancerPool pkg api (Some a) '''' sent =
       (Return (zero_LoadBalancerPool, Some ErrMissingPoolID), sent)
     \<and> DeleteLoadBalancerPool pkg api (Some a) '''' sent = (Return (Some ErrMissingPoolID), sent)
     \<and> UpdateLoadBalancerPool pkg api (Some a) up sent =
       (Return (zero_LoadBalancerPool, Some ErrMissingPoolID), sent)
     \<and> GetLoadBalancerPoolHealth pkg api (Some a) '''' sent =
       (Return (zero_LoadBalancerPoolHealth, Some ErrMissingPoolID), sent)
     \<and> GetLoadBalancerMonitor pkg api (Some a) '''' sent =
       (Return (zero_LoadBalancerMonitor, Some ErrMissingMonitorID), sent)
     \<and> DeleteLoadBalancerMonitor pkg api (Some a) '''' sent =
       (Return (Some ErrMissingMonitorID), sent)
     \<and> UpdateLoadBalancerMonitor pkg api (Some a) um sent =
       (Return (zero_LoadBalancerMonitor, Some ErrMissingMonitorID), sent)
     \<and> GetLoadBalancer pkg api (Some z) '''' sent =
       (Return (zero_LoadBalancer, Some ErrMissingLoadBalancerID), sent)
     \<and> DeleteLoadBalancer pkg api (Some z) '''' sent =
       (Return (Some ErrMissingLoadBalancerID), sent)
     \<and> UpdateLoadBalancer pkg api (Some z) ul sent =
       (Return (zero_LoadBalancer, Some ErrMissingLoadBalancerID), sent)"
proof -
  have pools:
    "GetLoadBalancerPool pkg api (Some a) '''' sent =
       (Return (zero_LoadBalancerPool, Some ErrMissingPoolID), sent)"
    "DeleteLoadBalancerPool pkg api (Some a) '''' sent = (Return (Some ErrMissingPoolID), sent)"
    "UpdateLoadBalancerPool pkg api (Some a) up sent =
       (Return (zero_LoadBalancerPool, Some ErrMissingPoolID), sent)"
    "GetLoadBalancerPoolHealth pkg api (Some a) '''' sent =
       (Return (zero_LoadBalancerPoolHealth, Some ErrMissingPoolID), sent)"
    using a up
    by (simp_all add: GetLoadBalancerPool_def DeleteLoadBalancerPool_def
        UpdateLoadBalancerPool_def GetLoadBalancerPoolHealth_def)
  have monitors:
    "GetLoadBalancerMonitor pkg api (Some a) '''' sent =
       (Return (zero_LoadBalancerMonitor, Some ErrMissingMonitorID), sent)"
    "DeleteLoadBalancerMonitor pkg api (Some a) '''' sent =
       (Return (Some ErrMissingMonitorID), sent)"
    "UpdateLoadBalancerMonitor pkg api (Some a) um sent =
       (Return (zero_LoadBalancerMonitor, Some ErrMissingMonitorID), sent)"
    using a um
    by (simp_all add: GetLoadBalancerMonitor_def DeleteLoadBalancerMonitor_def
        UpdateLoadBalancerMonitor_def)
  have balancers:
    "GetLoadBalancer pkg api (Some z) '''' sent =
       (Return (zero_LoadBalancer, Some ErrMissingLoadBalancerID), sent)"
    "DeleteLoadBalancer pkg api (Some z) '''' sent =
       (Return (Some ErrMissingLoadBalancerID), sent)"
    "UpdateLoadBalancer pkg api (Some z) ul sent =
       (Return (zero_LoadBalancer, Some ErrMissingLoadBalancerID), sent)"
    using z ul
    by (simp_all add: GetLoadBalancer_def DeleteLoadBalancer_def UpdateLoadBalancer_def)
  from pools monitors balancers show ?thesis by blast
qed

theorem C9_identifier_check_witness:
  "Level accountContainer \<noteq> ZoneRouteLevel examplePackage
   \<and> Level zoneContainer = ZoneRouteLevel examplePackage
   \<and> Pool_ID (UpdatePool_LoadBalancer \<lparr>UpdatePool_LoadBalancer = zero_LoadBalancerPool\<rparr>) = ''''
   \<and> Monitor_ID (UpdateMonitor_LoadBalancerMonitor
         \<lparr>UpdateMonitor_LoadBalancerMonitor = zero_LoadBalancerMonitor\<rparr>) = ''''
   \<and> LB_ID (UpdateLB_LoadBalancer \<lparr>UpdateLB_LoadBalancer = zero_LoadBalancer\<rparr>) = ''''
   \<and> GetLoadBalancerPool examplePackage exampleAPI (Some accountContainer) '''' [] =
       (Return (zero_LoadBalancerPool, Some ErrMissingPoolID), [])
   \<and> UpdateLoadBalancerMonitor examplePackage exampleAPI (Some accountContainer)
         \<lparr>UpdateMonitor_LoadBalancerMonitor = zero_LoadBalancerMonitor\<rparr> [] =
       (Return (zero_LoadBalancerMonitor, Some ErrMissingMonitorID), [])
   \<and> DeleteLoadBalancer examplePackage exampleAPI (Some zoneContainer) '''' [] =
       (Return (Some ErrMissingLoadBalancerID), [])
   \<and> UpdateLoadBalancer examplePackage exampleAPI (Some zoneContainer)
         \<lparr>UpdateLB_LoadBalancer = zero_LoadBalancer\<rparr> [] =
       (Return (zero_LoadBalancer, Some ErrMissingLoadBalancerID), [])"
proof -
  have a: "Level accountContainer \<noteq> ZoneRouteLevel examplePackage"
    by (simp add: accountContainer_def examplePackage_def)
  have z: "Level zoneContainer = ZoneRouteLevel examplePackage"
    by (simp add: zoneContainer_def examplePackage_def)
  have up: "Pool_ID (UpdatePool_LoadBalancer \<lparr>UpdatePool_LoadBalancer = zero_LoadBalancerPool\<rparr>) = ''''"
    by (simp add: zero_LoadBalancerPool_def)
  have um: "Monitor_ID (UpdateMonitor_LoadBalancerMonitor
        \<lparr>UpdateMonitor_LoadBalancerMonitor = zero_LoadBalancerMonitor\<rparr>) = ''''"
    by (simp add: zero_LoadBalancerMonitor_def)
  have ul: "LB_ID (UpdateLB_LoadBalancer \<lparr>UpdateLB_LoadBalancer = zero_LoadBalancer\<rparr>) = ''''"
    by (simp add: zero_LoadBalancer_def)
  note inst = C9_identifier_check [OF a z up um ul, where api = exampleAPI and sent = "[]"]
  from inst a z up um ul show ?thesis by blast
qed

text \<open>
  C9 as the spec states it holds for every call with an empty identifier. With a
  zone-level container \<^verbatim>\<open>GetLoadBalancerPool\<close> stops at the container check and returns
  the invalid-resource-container error, which is not \<^verbatim>\<open>ErrMissingPoolID\<close>.
\<close>

theorem C9_container_check_first:
  "GetLoadBalancerPool examplePackage exampleAPI (Some zoneContainer) '''' [] =
     (Return (zero_LoadBalancerPool, Some (ErrInvalidResourceContainerAccess ''zones'')), [])
   \<and> GetLoadBalancerPool examplePackage exampleAPI (Some zoneContainer) '''' [] \<noteq>
     (Return (zero_LoadBalancerPool, Some ErrMissingPoolID), [])"
  by (simp add: GetLoadBalancerPool_def zoneContainer_def examplePackage_def)

end
